theory Spec2Isabelle
  imports Main
begin

section \<open>The MDX component context (webpack module 11151)\<close>

text \<open>
  The bundle \<^verbatim>\<open>assets/js/c9d3b4a1.2a47c75d.js\<close> registers two webpack modules. Module
  11151 holds the component context of the documentation theme:
  \<^verbatim>\<open>
  const a = {}, r = s.createContext(a);
  function c(e) {
    const t = s.useContext(r);
    return s.useMemo(function () {
      return "function" == typeof e ? e(t) : {...t, ...e}
    }, [t, e])
  }
  function o(e) {
    let t;
    return t = e.disableParentContext
        ? "function" == typeof e.components ? e.components(a) : e.components || a
        : c(e.components),
      s.createElement(r.Provider, {value: t}, e.children)
  }
  \<close>
  The minified names \<open>c\<close> and \<open>o\<close> are used again by module 16956 for other things, so
  every definition below carries the source letter followed by what the binding is.

  A component set maps tag names to renderers. A renderer is either the name of an
  intrinsic tag (the string \<^verbatim>\<open>"h3"\<close>) or a custom component, which stays abstract.
\<close>

datatype 'c renderer = Tag string | Custom 'c

type_synonym 'c components = "string \<rightharpoonup> 'c renderer"

text \<open>
  The \<^verbatim>\<open>components\<close> value a caller passes: nothing, \<^verbatim>\<open>null\<close>, a plain object, or a
  function from the inherited component set to a component set.
\<close>

datatype 'c override =
    Undefined
  | Null
  | Mapping "'c components"
  | Function "'c components \<Rightarrow> 'c components"

text \<open>\<^verbatim>\<open>const a = {}\<close>: the module-scoped empty object, also the context's default value.\<close>

definition a_default :: "'c components" where
  "a_default = Map.empty"

text \<open>
  \<^verbatim>\<open>s.useContext(r)\<close>: the value of the nearest enclosing provider, or the default \<open>a\<close>
  the context was created with when no provider encloses the caller (\<open>None\<close>).
\<close>

definition useContext :: "'c components option \<Rightarrow> 'c components" where
  "useContext env = (case env of None \<Rightarrow> a_default | Some v \<Rightarrow> v)"

text \<open>
  Object spread \<^verbatim>\<open>...e\<close> inside an object literal copies the own enumerable properties
  of \<open>e\<close>: none for \<^verbatim>\<open>undefined\<close> and \<^verbatim>\<open>null\<close>, none for a function object, the
  entries for a plain object.
\<close>

fun spread :: "'c override \<Rightarrow> 'c components" where
  "spread Undefined = Map.empty"
| "spread Null = Map.empty"
| "spread (Mapping m) = m"
| "spread (Function f) = Map.empty"

text \<open>
  The hook \<open>c\<close> (exported as \<open>a\<close>). \<^verbatim>\<open>useMemo\<close> returns what its callback returns, either
  now or at an earlier render with the same \<open>t\<close> and \<open>e\<close>; the callback is a function of
  those two alone, so the model calls it.
\<close>

definition c_hook :: "'c override \<Rightarrow> 'c components option \<Rightarrow> 'c components" where
  "c_hook e env =
     (let t = useContext env in
      case e of Function f \<Rightarrow> f t | _ \<Rightarrow> t ++ spread e)"

text \<open>
  The properties of a props object that the code of this bundle reads. \<open>children\<close> is
  handed on untouched, so its type is a parameter.
\<close>

record ('c, 'n) props =
  components :: "'c override"
  disableParentContext :: bool
  children :: 'n

text \<open>\<^verbatim>\<open>s.createElement(r.Provider, {value: t}, e.children)\<close>.\<close>

record ('c, 'n) provider_element =
  pvalue :: "'c components"
  pchildren :: 'n

text \<open>
  The provider \<open>o\<close> (exported as \<open>Z\<close>). In \<^verbatim>\<open>e.components || a\<close> a plain object is truthy,
  \<^verbatim>\<open>undefined\<close> and \<^verbatim>\<open>null\<close> are not.
\<close>

definition o_provider ::
  "('c, 'n) props \<Rightarrow> 'c components option \<Rightarrow> ('c, 'n) provider_element" where
  "o_provider e env =
     (let t = (if disableParentContext e
               then (case components e of
                       Function f \<Rightarrow> f a_default
                     | Mapping m \<Rightarrow> m
                     | _ \<Rightarrow> a_default)
               else c_hook (components e) env)
      in \<lparr>pvalue = t, pchildren = children e\<rparr>)"

text \<open>An override function that ignores the inherited set, for concrete inputs.\<close>

definition replace_with :: "'c components \<Rightarrow> 'c components \<Rightarrow> 'c components" where
  "replace_with m b = m"


section \<open>The page module (webpack module 16956)\<close>

subsection \<open>Module-level constants\<close>

text \<open>\<^verbatim>\<open>const r = {sidebar_label: "utils", title: "agentchat.utils"}\<close>.\<close>

record front_matter =
  fm_sidebar_label :: string
  fm_title :: string

definition r_frontMatter :: front_matter where
  "r_frontMatter = \<lparr>fm_sidebar_label = ''utils'', fm_title = ''agentchat.utils''\<rparr>"

text \<open>\<^verbatim>\<open>c = void 0\<close>: the page has no content title.\<close>

definition c_contentTitle :: "string option" where
  "c_contentTitle = None"

record nav_link =
  nav_title :: string
  nav_permalink :: string

record metadata =
  md_id :: string
  md_title :: string
  md_description :: string
  md_source :: string
  md_sourceDirName :: string
  md_slug :: string
  md_permalink :: string
  md_draft :: bool
  md_unlisted :: bool
  md_editUrl :: string
  md_tags :: "string list"
  md_version :: string
  md_frontMatter :: front_matter
  md_sidebar :: string
  md_previous :: nav_link
  md_next :: nav_link

text \<open>
  The metadata object \<open>o\<close>. Its description is the JavaScript literal
  \<^verbatim>\<open>"gather\\usage\\summary"\<close>, two backslashes in the string itself.
\<close>

definition o_metadata :: metadata where
  "o_metadata =
     \<lparr>md_id = ''reference/agentchat/utils'',
      md_title = ''agentchat.utils'',
      md_description = ''gather'' @ [CHR 0x5C] @ ''usage'' @ [CHR 0x5C] @ ''summary'',
      md_source = ''@site/docs/reference/agentchat/utils.md'',
      md_sourceDirName = ''reference/agentchat'',
      md_slug = ''/reference/agentchat/utils'',
      md_permalink = ''/autogen/docs/reference/agentchat/utils'',
      md_draft = False,
      md_unlisted = False,
      md_editUrl =
        ''https://github.com/microsoft/autogen/edit/main/website/docs/reference/agentchat/utils.md'',
      md_tags = [],
      md_version = ''current'',
      md_frontMatter = \<lparr>fm_sidebar_label = ''utils'', fm_title = ''agentchat.utils''\<rparr>,
      md_sidebar = ''referenceSideBar'',
      md_previous =
        \<lparr>nav_title = ''user_proxy_agent'',
         nav_permalink = ''/autogen/docs/reference/agentchat/user_proxy_agent''\<rparr>,
      md_next =
        \<lparr>nav_title = ''abstract_cache_base'',
         nav_permalink = ''/autogen/docs/reference/cache/abstract_cache_base''\<rparr>\<rparr>"

text \<open>\<^verbatim>\<open>l = {}\<close>: no assets.\<close>

definition l_assets :: "(string \<times> string) list" where
  "l_assets = []"

record toc_entry =
  toc_value :: string
  toc_id :: string
  toc_level :: nat

text \<open>\<^verbatim>\<open>i = [{value: "gather_usage_summary", id: "gather_usage_summary", level: 3}]\<close>.\<close>

definition i_toc :: "toc_entry list" where
  "i_toc =
     [\<lparr>toc_value = ''gather_usage_summary'', toc_id = ''gather_usage_summary'', toc_level = 3\<rparr>]"

subsection \<open>Elements\<close>

text \<open>
  What \<^verbatim>\<open>jsx\<close> and \<^verbatim>\<open>jsxs\<close> of the JSX runtime build: an element has a type (here
  whatever the component set holds under a tag name), its props other than
  \<open>children\<close> (\<open>id\<close>, \<open>className\<close>) and its children. A string child is a text node.
  \<^verbatim>\<open>jsx\<close> takes one child, \<^verbatim>\<open>jsxs\<close> an array of children.
\<close>

datatype 'a element =
    Text string
  | Fragment "'a element list"
  | Element 'a "(string \<times> string) list" "'a element list"

definition jsx :: "'a \<Rightarrow> (string \<times> string) list \<Rightarrow> 'a element \<Rightarrow> 'a element" where
  "jsx ty attrs child = Element ty attrs [child]"

definition jsxs :: "'a \<Rightarrow> (string \<times> string) list \<Rightarrow> 'a element list \<Rightarrow> 'a element" where
  "jsxs ty attrs cs = Element ty attrs cs"

text \<open>The elements of a tree that have a given type, outermost first.\<close>

fun elements_of :: "'a \<Rightarrow> 'a element \<Rightarrow> 'a element list" where
  "elements_of ty (Text s) = []"
| "elements_of ty (Fragment cs) = concat (map (elements_of ty) cs)"
| "elements_of ty (Element a attrs cs) =
     (if a = ty then [Element a attrs cs] else []) @ concat (map (elements_of ty) cs)"

subsection \<open>The render function \<open>u\<close>\<close>

text \<open>
  \<^verbatim>\<open>
  function u(e) {
    const t = {code: "code", h3: "h3", li: "li", p: "p", pre: "pre", strong: "strong",
               ul: "ul", ...(0, a.a)(), ...e.components};
    return (0, s.jsxs)(s.Fragment, {children: [ (0, s.jsx)(t.h3, {...}), "\n", ... ]})
  }
  \<close>
  The leading entries of the object literal:
\<close>

definition u_defaults :: "'c components" where
  "u_defaults =
     map_of [(''code'', Tag ''code''), (''h3'', Tag ''h3''), (''li'', Tag ''li''),
             (''p'', Tag ''p''), (''pre'', Tag ''pre''), (''strong'', Tag ''strong''),
             (''ul'', Tag ''ul'')]"

text \<open>
  The local \<open>t\<close>: the defaults, then the hook's result (called with no argument), then
  the caller's \<open>components\<close>, each spread over what came before.
\<close>

definition u_bindings :: "('c, 'n) props \<Rightarrow> 'c components option \<Rightarrow> 'c components" where
  "u_bindings e env = u_defaults ++ c_hook Undefined env ++ spread (components e)"

text \<open>
  The returned expression, as a function of the local \<open>t\<close>. A property read \<^verbatim>\<open>t.h3\<close>
  is \<open>t ''h3''\<close>; for a component set it is an option, \<open>None\<close> standing for \<^verbatim>\<open>undefined\<close>.
\<close>

definition u_tree :: "(string \<Rightarrow> 'a) \<Rightarrow> 'a element" where
  \<open>u_tree t =
     Fragment
      [jsx (t ''h3'') [(''id'', ''gather_usage_summary'')] (Text ''gather_usage_summary''),
       Text ''\<newline>'',
       jsx (t ''pre'') []
         (jsx (t ''code'') [(''className'', ''language-python'')]
            (Text ''def gather_usage_summary(\<newline>        agents: List[Agent]) -> Tuple[Dict[str, any], Dict[str, any]]\<newline>'')),
       Text ''\<newline>'',
       jsx (t ''p'') [] (Text ''Gather usage summary from all agents.''),
       Text ''\<newline>'',
       jsxs (t ''p'') [] [jsx (t ''strong'') [] (Text ''Arguments''), Text '':''],
       Text ''\<newline>'',
       jsxs (t ''ul'') []
         [Text ''\<newline>'',
          jsxs (t ''li'') []
            [jsx (t ''code'') [] (Text ''agents''), Text '' - (list): List of agents.''],
          Text ''\<newline>''],
       Text ''\<newline>'',
       jsxs (t ''p'') [] [jsx (t ''strong'') [] (Text ''Returns''), Text '':''],
       Text ''\<newline>'',
       jsxs (t ''ul'') []
         [Text ''\<newline>'',
          jsxs (t ''li'') []
            [jsx (t ''code'') [] (Text ''tuple''),
             Text '' - (total_usage_summary, actual_usage_summary)''],
          Text ''\<newline>''],
       Text ''\<newline>'',
       jsxs (t ''p'') [] [jsx (t ''strong'') [] (Text ''Example''), Text '':''],
       Text ''\<newline>'',
       jsx (t ''pre'') []
         (jsx (t ''code'') [(''className'', ''language-python'')]
            (Text ''total_usage_summary = {\<newline>    "total_cost": 0.0006090000000000001,\<newline>    "gpt-35-turbo": {\<newline>            "cost": 0.0006090000000000001,\<newline>            "prompt_tokens": 242,\<newline>            "completion_tokens": 123,\<newline>            "total_tokens": 365\<newline>    }\<newline>}\<newline>'')),
       Text ''\<newline>'',
       jsxs (t ''p'') [] [jsx (t ''strong'') [] (Text ''Notes''), Text '':''],
       Text ''\<newline>'',
       jsxs (t ''p'') []
         [jsx (t ''code'') [] (Text ''actual_usage_summary''),
          Text '' follows the same format.\<newline>If none of the agents incurred any cost (not having a client), then the total_usage_summary and actual_usage_summary will be '',
          jsx (t ''code'') [] (Text ''{'total_cost': 0}''),
          Text ''.'']]\<close>

definition u_render ::
  "('c, 'n) props \<Rightarrow> 'c components option \<Rightarrow> 'c renderer option element" where
  "u_render e env = u_tree (u_bindings e env)"

text \<open>The tag names the page is written in.\<close>

definition page_tags :: "string set" where
  "page_tags = {''h3'', ''code'', ''li'', ''p'', ''pre'', ''strong'', ''ul''}"

subsection \<open>The page component \<open>d\<close>\<close>

text \<open>
  \<^verbatim>\<open>
  function d(e = {}) {
    const {wrapper: t} = {...(0, a.a)(), ...e.components};
    return t ? (0, s.jsx)(t, {...e, children: (0, s.jsx)(u, {...e})}) : u(e)
  }
  \<close>
  With a truthy \<open>wrapper\<close> the result is a wrapper element around an element of type
  \<open>u\<close> that carries the same props and is rendered later by the framework; otherwise
  it is what \<open>u\<close> returns. The empty string is the one falsy renderer. A call without
  props is a call with props whose \<open>components\<close> is \<open>Undefined\<close>.
\<close>

fun truthy :: "'c renderer option \<Rightarrow> bool" where
  "truthy None = False"
| "truthy (Some (Tag s)) = (s \<noteq> [])"
| "truthy (Some (Custom c)) = True"

datatype ('c, 'n) mdx_content =
    Wrapped "'c renderer option" "('c, 'n) props"
  | Body "'c renderer option element"

definition d_content ::
  "('c, 'n) props \<Rightarrow> 'c components option \<Rightarrow> ('c, 'n) mdx_content" where
  "d_content e env =
     (let t = (c_hook Undefined env ++ spread (components e)) ''wrapper''
      in if truthy t then Wrapped t e else Body (u_render e env))"

subsection \<open>The module as its consumers see it\<close>

text \<open>
  The module exports getters for its constants and the component \<open>d\<close>:
  \<^verbatim>\<open>
  n.d(t, {assets: () => l, contentTitle: () => c, default: () => d,
          frontMatter: () => r, metadata: () => o, toc: () => i})
  \<close>
  The bindings are kept in a record that every operation takes and returns, so that
  what an operation writes, if anything, shows in the record it returns.
\<close>

record page_module =
  assets :: "(string \<times> string) list"
  contentTitle :: "string option"
  frontMatter :: front_matter
  metadata :: metadata
  toc :: "toc_entry list"

definition page_module_init :: page_module where
  "page_module_init =
     \<lparr>assets = l_assets, contentTitle = c_contentTitle, frontMatter = r_frontMatter,
      metadata = o_metadata, toc = i_toc\<rparr>"

datatype ('c, 'n) request =
    Get_assets
  | Get_contentTitle
  | Get_frontMatter
  | Get_metadata
  | Get_toc
  | Call_default "('c, 'n) props" "'c components option"

datatype ('c, 'n) response =
    Got_assets "(string \<times> string) list"
  | Got_contentTitle "string option"
  | Got_frontMatter front_matter
  | Got_metadata metadata
  | Got_toc "toc_entry list"
  | Rendered "('c, 'n) mdx_content"

fun access :: "('c, 'n) request \<Rightarrow> page_module \<Rightarrow> ('c, 'n) response \<times> page_module" where
  "access Get_assets m = (Got_assets (assets m), m)"
| "access Get_contentTitle m = (Got_contentTitle (contentTitle m), m)"
| "access Get_frontMatter m = (Got_frontMatter (frontMatter m), m)"
| "access Get_metadata m = (Got_metadata (metadata m), m)"
| "access Get_toc m = (Got_toc (toc m), m)"
| "access (Call_default e env) m = (Rendered (d_content e env), m)"

fun run :: "('c, 'n) request list \<Rightarrow> page_module \<Rightarrow> page_module" where
  "run [] m = m"
| "run (q # qs) m = run qs (snd (access q m))"


section \<open>Properties of the context hook and the provider\<close>

text \<open>
  C1. For every inherited component set \<open>B\<close> and every override given as a plain mapping
  \<open>O\<close>, the hook returns \<open>B\<close> overwritten by \<open>O\<close>: a key of \<open>O\<close> has \<open>O\<close>'s value, a key
  outside \<open>O\<close> keeps what \<open>B\<close> says about it (its value, or its absence), so the keys of
  \<open>O\<close> take precedence over those of \<open>B\<close>.
\<close>

theorem c_hook_mapping_overwrites:
  "c_hook (Mapping O') (Some B) = B ++ O'
   \<and> (\<forall>k. k \<in> dom O' \<longrightarrow> c_hook (Mapping O') (Some B) k = O' k)
   \<and> (\<forall>k. k \<notin> dom O' \<longrightarrow> c_hook (Mapping O') (Some B) k = B k)
   \<and> dom (c_hook (Mapping O') (Some B)) = dom B \<union> dom O'"
  by (auto simp: c_hook_def useContext_def map_add_def split: option.splits)

theorem c_hook_mapping_overwrites_witness:
  "''code'' \<in> dom (map_of [(''code'', Custom ''CustomCode'')])
   \<and> ''p'' \<notin> dom (map_of [(''code'', Custom ''CustomCode'')])
   \<and> c_hook (Mapping (map_of [(''code'', Custom ''CustomCode'')]))
        (Some (map_of [(''p'', Custom ''DefaultP''), (''code'', Tag ''code'')])) ''code''
      = Some (Custom ''CustomCode'')
   \<and> c_hook (Mapping (map_of [(''code'', Custom ''CustomCode'')]))
        (Some (map_of [(''p'', Custom ''DefaultP''), (''code'', Tag ''code'')])) ''p''
      = Some (Custom ''DefaultP'')"
  using c_hook_mapping_overwrites
    [of "map_of [(''code'', Custom ''CustomCode'')]"
        "map_of [(''p'', Custom ''DefaultP''), (''code'', Tag ''code'')]"]
  by simp

text \<open>
  C2. The claim reads the function form as one more mapping override: the hook would
  return \<open>B\<close> overwritten by \<open>f B\<close>. The code returns \<open>f B\<close> as it is, and merges nothing:
  a function override decides by itself what it keeps of the inherited set.
\<close>

theorem c_hook_function_returns_result:
  "c_hook (Function f) (Some B) = f B"
  by (simp add: c_hook_def useContext_def)

text \<open>
  With the inherited set \<open>{p: DefaultP}\<close> and a function that returns \<open>{code: CustomCode}\<close>
  whatever it is given, the hook's result has no \<open>p\<close>, while \<open>B\<close> overwritten by \<open>f B\<close> has.
\<close>

theorem c_hook_function_not_merged_counterexample:
  "c_hook (Function (replace_with (map_of [(''code'', Custom ''CustomCode'')])))
     (Some (map_of [(''p'', Custom ''DefaultP'')]))
   \<noteq> map_of [(''p'', Custom ''DefaultP'')]
       ++ replace_with (map_of [(''code'', Custom ''CustomCode'')])
            (map_of [(''p'', Custom ''DefaultP'')])"
proof
  assume eq:
    "c_hook (Function (replace_with (map_of [(''code'', Custom ''CustomCode'')])))
       (Some (map_of [(''p'', Custom ''DefaultP'')]))
     = map_of [(''p'', Custom ''DefaultP'')]
         ++ replace_with (map_of [(''code'', Custom ''CustomCode'')])
              (map_of [(''p'', Custom ''DefaultP'')])"
  have "c_hook (Function (replace_with (map_of [(''code'', Custom ''CustomCode'')])))
          (Some (map_of [(''p'', Custom ''DefaultP'')])) ''p'' = None"
    by (simp add: c_hook_def useContext_def replace_with_def)
  moreover
  have "(map_of [(''p'', Custom ''DefaultP'')]
          ++ replace_with (map_of [(''code'', Custom ''CustomCode'')])
               (map_of [(''p'', Custom ''DefaultP'')])) ''p''
        = Some (Custom ''DefaultP'')"
    by (simp add: replace_with_def map_add_def)
  ultimately show False
    using eq by simp
qed

text \<open>
  C3. With \<open>disableParentContext\<close> set and a plain mapping \<open>O\<close> as override, the value the
  provider installs is \<open>O\<close>, whatever the enclosing context \<open>env\<close> holds; a descendant
  that reads the context under this provider reads \<open>O\<close>.
\<close>

theorem o_provider_disabled_mapping:
  "pvalue (o_provider \<lparr>components = Mapping O', disableParentContext = True, children = n\<rparr> env)
     = O'
   \<and> useContext (Some (pvalue (o_provider
        \<lparr>components = Mapping O', disableParentContext = True, children = n\<rparr> env))) = O'"
  by (simp add: o_provider_def useContext_def)

text \<open>
  C4. With \<open>disableParentContext\<close> set and a function \<open>f\<close> as override, the value the
  provider installs is \<open>f\<close> applied to the empty mapping, whatever the enclosing
  context holds.
\<close>

theorem o_provider_disabled_function:
  "pvalue (o_provider \<lparr>components = Function f, disableParentContext = True, children = n\<rparr> env)
     = f Map.empty"
  by (simp add: o_provider_def a_default_def)

text \<open>
  C5. Called with no override (\<^verbatim>\<open>undefined\<close>), the hook returns a mapping equal to the
  inherited set \<open>B\<close>.
\<close>

theorem c_hook_undefined_identity:
  "c_hook Undefined (Some B) = B"
  by (simp add: c_hook_def useContext_def)

text \<open>
  C6. Merging the same mapping override a second time changes nothing: the hook
  applied to \<open>O\<close> over its own result for \<open>O\<close> and \<open>B\<close> returns that result.
\<close>

theorem c_hook_mapping_idempotent:
  "c_hook (Mapping O') (Some (c_hook (Mapping O') (Some B))) = c_hook (Mapping O') (Some B)"
  by (rule ext) (simp add: c_hook_def useContext_def map_add_def split: option.splits)

text \<open>
  C9. With \<open>disableParentContext\<close> set and no override (\<^verbatim>\<open>undefined\<close>), the value the
  provider installs is the module-scoped object \<open>a\<close>, the empty mapping: a component
  set with no key, not a missing value.
\<close>

theorem o_provider_disabled_undefined:
  "pvalue (o_provider \<lparr>components = Undefined, disableParentContext = True, children = n\<rparr> env)
     = a_default
   \<and> (a_default :: 'c components) = Map.empty
   \<and> dom (pvalue (o_provider
        \<lparr>components = Undefined, disableParentContext = True, children = n\<rparr> env)
        :: 'c components) = {}"
  by (simp add: o_provider_def a_default_def)


section \<open>Properties of the page module\<close>

lemma access_keeps: "snd (access q m) = m"
  by (cases q) simp_all

lemma run_keeps: "run qs m = m"
  by (induction qs arbitrary: m) (simp_all add: access_keeps)

lemma dom_u_defaults: "dom (u_defaults :: 'c components) = page_tags"
  by (auto simp: u_defaults_def page_tags_def dom_def split: if_splits)

text \<open>Written with the tag names themselves as types, the tree uses the seven names.\<close>

lemma u_tree_types: "set_element (u_tree (\<lambda>k. k)) = page_tags"
  by (auto simp: u_tree_def jsx_def jsxs_def page_tags_def)

text \<open>The tree reads \<open>t\<close> at tag names only, so any \<open>t\<close> gives the image of that tree.\<close>

lemma u_tree_natural: "u_tree t = map_element t (u_tree (\<lambda>k. k))"
  by (simp add: u_tree_def jsx_def jsxs_def)

lemma u_defaults_lookup:
  "k \<in> page_tags \<Longrightarrow> (u_defaults :: 'c components) k = Some (Tag k)"
  by (auto simp: u_defaults_def page_tags_def)

lemma u_bindings_lookup:
  "u_bindings e env k =
     (case spread (components e) k of
        Some v \<Rightarrow> Some v
      | None \<Rightarrow> (case useContext env k of Some v \<Rightarrow> Some v | None \<Rightarrow> u_defaults k))"
  by (simp add: u_bindings_def c_hook_def map_add_def split: option.splits)

text \<open>
  C7. The render function gives defaults to exactly the tag names \<open>h3\<close>, \<open>code\<close>, \<open>li\<close>,
  \<open>p\<close>, \<open>pre\<close>, \<open>strong\<close> and \<open>ul\<close>, and these are exactly the names its tree reads. For
  each of them the bound renderer is the one in the caller's \<open>components\<close> when there is
  one, else the one in the inherited context when there is one, else the default, which
  is the tag name itself.
\<close>

theorem u_binds_page_tags:
  "dom (u_defaults :: 'c components) = page_tags
   \<and> set_element (u_tree (\<lambda>k. k)) = page_tags
   \<and> u_render (e :: ('c, 'n) props) env = map_element (u_bindings e env) (u_tree (\<lambda>k. k))
   \<and> (\<forall>k \<in> page_tags.
         u_bindings e env k =
           (case spread (components e) k of
              Some v \<Rightarrow> Some v
            | None \<Rightarrow> (case useContext env k of Some v \<Rightarrow> Some v | None \<Rightarrow> Some (Tag k))))"
proof -
  have "u_render e env = map_element (u_bindings e env) (u_tree (\<lambda>k. k))"
    unfolding u_render_def by (rule u_tree_natural)
  moreover
  have "\<forall>k \<in> page_tags.
          u_bindings e env k =
            (case spread (components e) k of
               Some v \<Rightarrow> Some v
             | None \<Rightarrow> (case useContext env k of Some v \<Rightarrow> Some v | None \<Rightarrow> Some (Tag k)))"
    by (simp add: u_bindings_lookup u_defaults_lookup split: option.splits)
  ultimately show ?thesis
    using dom_u_defaults u_tree_types by blast
qed

theorem u_binds_page_tags_witness:
  "''code'' \<in> page_tags \<and> ''p'' \<in> page_tags \<and> ''h3'' \<in> page_tags
   \<and> u_bindings
        \<lparr>components = Mapping (map_of [(''code'', Custom ''CustomCode'')]),
         disableParentContext = False, children = ()\<rparr>
        (Some (map_of [(''p'', Custom ''DefaultP''), (''code'', Custom ''InheritedCode'')]))
        ''code'' = Some (Custom ''CustomCode'')
   \<and> u_bindings
        \<lparr>components = Mapping (map_of [(''code'', Custom ''CustomCode'')]),
         disableParentContext = False, children = ()\<rparr>
        (Some (map_of [(''p'', Custom ''DefaultP''), (''code'', Custom ''InheritedCode'')]))
        ''p'' = Some (Custom ''DefaultP'')
   \<and> u_bindings
        \<lparr>components = Mapping (map_of [(''code'', Custom ''CustomCode'')]),
         disableParentContext = False, children = ()\<rparr>
        (Some (map_of [(''p'', Custom ''DefaultP''), (''code'', Custom ''InheritedCode'')]))
        ''h3'' = Some (Tag ''h3'')"
  using u_binds_page_tags
    [of "\<lparr>components = Mapping (map_of [(''code'', Custom ''CustomCode'')]),
         disableParentContext = False, children = ()\<rparr>"
        "Some (map_of [(''p'', Custom ''DefaultP''), (''code'', Custom ''InheritedCode'')])"]
  by (simp add: page_tags_def useContext_def)

text \<open>
  C8. The metadata record has the routing slug \<open>/reference/agentchat/utils\<close>, a previous
  link titled \<open>user_proxy_agent\<close> and a next link titled \<open>abstract_cache_base\<close>, each
  with its permalink. No operation of the module writes it: after any request, and
  after any sequence of requests, the module still holds that record and its getter
  returns it.
\<close>

theorem o_metadata_navigation:
  "md_slug o_metadata = ''/reference/agentchat/utils''
   \<and> nav_title (md_previous o_metadata) = ''user_proxy_agent''
   \<and> nav_permalink (md_previous o_metadata)
       = ''/autogen/docs/reference/agentchat/user_proxy_agent''
   \<and> nav_title (md_next o_metadata) = ''abstract_cache_base''
   \<and> nav_permalink (md_next o_metadata) = ''/autogen/docs/reference/cache/abstract_cache_base''
   \<and> metadata page_module_init = o_metadata
   \<and> metadata (snd (access q page_module_init)) = o_metadata
   \<and> metadata (run qs page_module_init) = o_metadata
   \<and> fst (access Get_metadata (run qs page_module_init)) = Got_metadata o_metadata"
  by (simp add: run_keeps access_keeps) (simp add: o_metadata_def page_module_init_def)

text \<open>
  C10. The table of contents has one entry, of level 3. The tree of the render
  function has one \<open>h3\<close> element; its \<open>id\<close> attribute is the entry's anchor id
  (\<open>gather_usage_summary\<close>) and its text is the entry's value. This is stated on the tree
  written with tag names, of which every rendering is the image, and on the rendering
  with no provider and no override, where \<open>h3\<close> is bound to the tag \<open>h3\<close>.
\<close>

theorem i_toc_matches_heading:
  "i_toc =
     [\<lparr>toc_value = ''gather_usage_summary'', toc_id = ''gather_usage_summary'', toc_level = 3\<rparr>]
   \<and> length i_toc = 1
   \<and> toc_level (hd i_toc) = 3
   \<and> elements_of ''h3'' (u_tree (\<lambda>k. k))
       = [Element ''h3'' [(''id'', toc_id (hd i_toc))] [Text (toc_value (hd i_toc))]]
   \<and> u_render e env = map_element (u_bindings e env) (u_tree (\<lambda>k. k))
   \<and> elements_of (Some (Tag ''h3''))
         (u_render \<lparr>components = Undefined, disableParentContext = False, children = n\<rparr> None)
       = [Element (Some (Tag ''h3'')) [(''id'', toc_id (hd i_toc))] [Text (toc_value (hd i_toc))]]"
proof -
  have "elements_of ''h3'' (u_tree (\<lambda>k. k))
        = [Element ''h3'' [(''id'', toc_id (hd i_toc))] [Text (toc_value (hd i_toc))]]"
    by (simp add: u_tree_def jsx_def jsxs_def i_toc_def)
  moreover
  have "u_render e env = map_element (u_bindings e env) (u_tree (\<lambda>k. k))"
    unfolding u_render_def by (rule u_tree_natural)
  moreover
  have "elements_of (Some (Tag ''h3''))
          (u_render \<lparr>components = Undefined, disableParentContext = False, children = n\<rparr> None)
        = [Element (Some (Tag ''h3'')) [(''id'', toc_id (hd i_toc))] [Text (toc_value (hd i_toc))]]"
    by (simp add: u_render_def u_tree_def jsx_def jsxs_def i_toc_def u_bindings_lookup
        u_defaults_def useContext_def a_default_def)
  ultimately show ?thesis
    by (simp add: i_toc_def)
qed

end
